theory Spec2Isabelle
  imports Main
begin

section \<open>The text_highlighter wrapper (src/text_highlighter/__init__.py)\<close>

subsection \<open>Data\<close>

text \<open>
  An annotation is a Python \<^verbatim>\<open>Dict[str, Any]\<close>. The wrapper never looks inside one; the
  keys the demo at the end of the source uses are \<^verbatim>\<open>start\<close>, \<^verbatim>\<open>end\<close>, \<^verbatim>\<open>text\<close>,
  \<^verbatim>\<open>tag\<close> and \<^verbatim>\<open>color\<close>, with integer and string values. A dictionary is kept as an
  association list, so that two of them can be compared by evaluation.
\<close>

datatype pyval = PyInt int | PyStr string

type_synonym annotation = "(string \<times> pyval) list"

text \<open>
  \<^verbatim>\<open>labels: Union[str, List[str]]\<close>: the constructor is what \<^verbatim>\<open>isinstance(labels, str)\<close>
  tests.
\<close>

datatype labels_arg = LabelStr string | LabelList "string list"

text \<open>
  The two ways the body can raise: \<^verbatim>\<open>labels[0]\<close> on an empty list (line 78) and the
  \<^verbatim>\<open>assert\<close> of line 80, which carries its message. Assertions are taken as enabled
  (the interpreter's default mode).
\<close>

datatype error = IndexError | AssertionError string

text \<open>
  Python lists are objects with identity: \<^verbatim>\<open>annotations\<close> is passed and returned by
  reference, and the default \<^verbatim>\<open>annotations=[]\<close> of line 50 is one list object, made when
  the function is defined and shared by every call that omits the argument. The store
  holds the annotation lists that exist; an address is an index into it, and a new object
  is put at the end.
\<close>

type_synonym addr = nat

text \<open>
  The keyword arguments of the call on \<^verbatim>\<open>_component_func\<close> (lines 100 to 109), in the
  order of the source.
\<close>

record kwargs =
  kw_text :: string
  kw_annotations :: addr
  kw_colors :: "string list"
  kw_labels :: "string list"
  kw_key :: "string option"
  kw_default :: addr
  kw_selected_label :: string
  kw_show_label_selector :: bool

text \<open>
  The world a call runs in: the store of list objects, and the calls that have reached
  the Rendering Surface so far, oldest first.
\<close>

record world =
  store :: "annotation list list"
  rendered :: "kwargs list"

text \<open>
  The module just after \<^verbatim>\<open>def text_highlighter\<close> has run: the default list of line 50
  exists, empty, at address \<open>annotations_default\<close>, and nothing has been rendered.
\<close>

definition annotations_default :: addr where
  "annotations_default = 0"

definition module_loaded :: world where
  "module_loaded = \<lparr>store = [[]], rendered = []\<rparr>"

subsection \<open>The Rendering Surface\<close>

text \<open>
  Modelled from the spec: \<^verbatim>\<open>_component_func\<close>, the function Streamlit's
  \<^verbatim>\<open>declare_component\<close> returns (lines 22 to 39); its code and the frontend it drives are
  not among the sources. Section 4.4 of the spec and the comment of lines 98 and 99 give
  its contract: before the user has interacted with the component it returns the
  \<^verbatim>\<open>default\<close> argument (the very object passed in); afterwards it returns the full
  replacement set the frontend emitted, which arrives as a new list. \<open>emitted\<close> is what
  the frontend has reported for this instance: \<open>None\<close> before any interaction.
\<close>

definition component_func ::
  "annotation list option \<Rightarrow> world \<Rightarrow> kwargs \<Rightarrow> addr \<times> world" where
  "component_func emitted w kw =
     (let w1 = w\<lparr>rendered := rendered w @ [kw]\<rparr> in
      case emitted of
        None \<Rightarrow> (kw_default kw, w1)
      | Some v \<Rightarrow> (length (store w1), w1\<lparr>store := store w1 @ [v]\<rparr>))"

subsection \<open>The wrapper\<close>

text \<open>Line 76: \<^verbatim>\<open>labels = [labels] if isinstance(labels, str) else labels\<close>.\<close>

fun as_list :: "labels_arg \<Rightarrow> string list" where
  "as_list (LabelStr s) = [s]"
| "as_list (LabelList ls) = ls"

text \<open>Lines 82 to 92.\<close>

definition all_colors :: "string list" where
  "all_colors =
     [''red'', ''green'', ''blue'', ''yellow'', ''orange'', ''purple'', ''pink'',
      ''cyan'', ''gray'']"

text \<open>
  \<^verbatim>\<open>text_highlighter\<close>, lines 47 to 113. The parameters are those of the source, in its
  order, after the frontend's report and the world. A call that omits \<^verbatim>\<open>annotations\<close>
  passes \<open>annotations_default\<close>. A raise leaves the world as it was and returns \<open>Inl\<close>.
\<close>

definition text_highlighter ::
  "annotation list option \<Rightarrow> world \<Rightarrow> string \<Rightarrow> string option \<Rightarrow> addr \<Rightarrow> labels_arg \<Rightarrow>
   string list option \<Rightarrow> string option \<Rightarrow> bool \<Rightarrow> (error + addr) \<times> world" where
  "text_highlighter emitted w text selected_label annotations labels colors key
     show_label_selector =
     (let labels = as_list labels in
      case (case selected_label of
              None \<Rightarrow> (case labels of [] \<Rightarrow> Inl IndexError | l # _ \<Rightarrow> Inr l)
            | Some s \<Rightarrow> Inr s) of
        Inl e \<Rightarrow> (Inl e, w)
      | Inr selected_label \<Rightarrow>
          (case (case colors of
                   Some cs \<Rightarrow>
                     if length cs = length labels then Inr cs
                     else Inl (AssertionError ''Colors and labels must be the same length'')
                 | None \<Rightarrow>
                     Inr (map (\<lambda>i. all_colors ! (i mod length all_colors))
                            [0..<length labels])) of
             Inl e \<Rightarrow> (Inl e, w)
           | Inr colors \<Rightarrow>
               (case component_func emitted w
                       \<lparr>kw_text = text, kw_annotations = annotations, kw_colors = colors,
                        kw_labels = labels, kw_key = key, kw_default = annotations,
                        kw_selected_label = selected_label,
                        kw_show_label_selector = show_label_selector\<rparr> of
                  (component_value, w') \<Rightarrow> (Inr component_value, w'))))"

subsection \<open>A caller making several calls\<close>



subsection \<open>The checks the spec asks for\<close>

text \<open>
  The Annotation Validator of section 4.2 of the spec and the colour invariant of its
  section 3, written from the spec's words: the source has no counterpart of either. They
  say which annotations the claims C2 and C7 speak of. \<open>spec_span_ok\<close> is
  \<^verbatim>\<open>0 <= start < end <= len(text)\<close>; \<open>spec_text_ok\<close> compares a \<^verbatim>\<open>text\<close> field, when
  there is one, with \<^verbatim>\<open>source[start:end]\<close>; \<open>spec_tag_ok\<close> is membership of the tag
  in the label set; \<open>spec_color_ok\<close> says that the colour is the one the palette
  (labels and colors, aligned) gives the tag.
\<close>

definition spec_tag_ok :: "string list \<Rightarrow> annotation \<Rightarrow> bool" where
  "spec_tag_ok labelSet a =
     (case map_of a ''tag'' of Some (PyStr t) \<Rightarrow> t \<in> set labelSet | _ \<Rightarrow> False)"

definition spec_span_ok :: "string \<Rightarrow> annotation \<Rightarrow> bool" where
  "spec_span_ok source a =
     (case (map_of a ''start'', map_of a ''end'') of
        (Some (PyInt s), Some (PyInt e)) \<Rightarrow> 0 \<le> s \<and> s < e \<and> e \<le> int (length source)
      | _ \<Rightarrow> False)"

definition spec_text_ok :: "string \<Rightarrow> annotation \<Rightarrow> bool" where
  "spec_text_ok source a =
     (case map_of a ''text'' of
        None \<Rightarrow> True
      | Some (PyStr t) \<Rightarrow>
          (case (map_of a ''start'', map_of a ''end'') of
             (Some (PyInt s), Some (PyInt e)) \<Rightarrow> t = take (nat (e - s)) (drop (nat s) source)
           | _ \<Rightarrow> False)
      | _ \<Rightarrow> False)"

definition spec_validate :: "annotation list \<Rightarrow> string list \<Rightarrow> string \<Rightarrow> bool" where
  "spec_validate annotations labelSet source =
     list_all (\<lambda>a. spec_tag_ok labelSet a \<and> spec_span_ok source a \<and> spec_text_ok source a)
       annotations"

definition spec_color_ok :: "string list \<Rightarrow> string list \<Rightarrow> annotation \<Rightarrow> bool" where
  "spec_color_ok labels colors a =
     (case (map_of a ''tag'', map_of a ''color'') of
        (Some (PyStr t), Some (PyStr c)) \<Rightarrow> map_of (zip labels colors) t = Some c
      | _ \<Rightarrow> False)"

section \<open>What a call does, case by case\<close>

lemma component_func_rendered [simp]:
  "rendered (snd (component_func emitted w kw)) = rendered w @ [kw]"
  by (simp add: component_func_def Let_def split: option.splits)

lemma component_func_store [simp]:
  "store (snd (component_func emitted w kw)) =
     (case emitted of None \<Rightarrow> store w | Some v \<Rightarrow> store w @ [v])"
  by (simp add: component_func_def Let_def split: option.splits)

lemma component_func_value [simp]:
  "fst (component_func emitted w kw) =
     (case emitted of None \<Rightarrow> kw_default kw | Some v \<Rightarrow> length (store w))"
  by (simp add: component_func_def Let_def split: option.splits)

text \<open>
  A call whose selected label can be resolved and whose colors, when given, are as many as
  the labels reaches the Rendering Surface, with these keyword arguments.
\<close>

lemma text_highlighter_ok:
  assumes sel: "selected_label = Some s \<or> as_list labels = l # ls"
    and col: "colors = None \<or> colors = Some cs \<and> length cs = length (as_list labels)"
  shows "text_highlighter emitted w text selected_label annotations labels colors key
           show_label_selector =
         (Inr (fst (component_func emitted w
                 \<lparr>kw_text = text, kw_annotations = annotations,
                  kw_colors = (case colors of Some cs \<Rightarrow> cs
                     | None \<Rightarrow> map (\<lambda>i. all_colors ! (i mod 9)) [0..<length (as_list labels)]),
                  kw_labels = as_list labels, kw_key = key, kw_default = annotations,
                  kw_selected_label = (case selected_label of Some s \<Rightarrow> s | None \<Rightarrow> l),
                  kw_show_label_selector = show_label_selector\<rparr>)),
          snd (component_func emitted w
                 \<lparr>kw_text = text, kw_annotations = annotations,
                  kw_colors = (case colors of Some cs \<Rightarrow> cs
                     | None \<Rightarrow> map (\<lambda>i. all_colors ! (i mod 9)) [0..<length (as_list labels)]),
                  kw_labels = as_list labels, kw_key = key, kw_default = annotations,
                  kw_selected_label = (case selected_label of Some s \<Rightarrow> s | None \<Rightarrow> l),
                  kw_show_label_selector = show_label_selector\<rparr>))"
proof -
  have n: "length all_colors = 9" by (simp add: all_colors_def)
  show ?thesis
    using sel col
    by (cases selected_label; cases colors)
       (auto simp add: text_highlighter_def n case_prod_beta Let_def)
qed

lemma text_highlighter_index_error:
  "as_list labels = [] \<Longrightarrow>
   text_highlighter emitted w text None annotations labels colors key show_label_selector =
     (Inl IndexError, w)"
  by (simp add: text_highlighter_def)

lemma text_highlighter_assertion_error:
  assumes "selected_label = Some s \<or> as_list labels = l # ls"
    and "length cs \<noteq> length (as_list labels)"
  shows "text_highlighter emitted w text selected_label annotations labels (Some cs) key
           show_label_selector =
         (Inl (AssertionError ''Colors and labels must be the same length''), w)"
  using assms by (cases selected_label) (auto simp add: text_highlighter_def Let_def)

lemma text_highlighter_Inr_selected:
  assumes "text_highlighter emitted w text selected_label annotations labels colors key
             show_label_selector = (Inr v, w')"
  shows "\<exists>s l ls. selected_label = Some s \<or> as_list labels = l # ls"
  using assms
  by (cases selected_label; cases "as_list labels") (auto simp add: text_highlighter_def)



section \<open>Properties\<close>

text \<open>
  C1. With \<^verbatim>\<open>colors\<close> omitted, every call that can resolve a selected label (one is given,
  or there is a first label) reaches the Rendering Surface, and the colors it sends are
  as many as the labels, the one at position \<open>i\<close> being the \<open>i mod 9\<close>-th of red, green,
  blue, yellow, orange, purple, pink, cyan, gray; the labels are sent in their order. Any
  other call with the same labels and no colors, whatever its other arguments and its
  world, sends the same colors.
\<close>

theorem builtin_palette:
  assumes sel: "selected_label = Some s \<or> as_list labels = l # ls"
    and run: "text_highlighter emitted w text selected_label annotations labels None key
                show_label_selector = (r, w')"
  shows "(\<exists>v. r = Inr v) \<and>
         kw_labels (last (rendered w')) = as_list labels \<and>
         length (kw_colors (last (rendered w'))) = length (as_list labels) \<and>
         (i < length (as_list labels) \<longrightarrow>
            kw_colors (last (rendered w')) ! i =
              [''red'', ''green'', ''blue'', ''yellow'', ''orange'', ''purple'', ''pink'',
               ''cyan'', ''gray''] ! (i mod 9)) \<and>
         (text_highlighter emitted2 w2 text2 selected_label2 annotations2 labels None key2
            show_label_selector2 = (Inr v2, w2') \<longrightarrow>
            kw_colors (last (rendered w2')) = kw_colors (last (rendered w')))"
proof -
  note ok = text_highlighter_ok [OF sel, of None, simplified]
  have r: "\<exists>v. r = Inr v" and w': "kw_labels (last (rendered w')) = as_list labels"
    and c: "kw_colors (last (rendered w')) =
            map (\<lambda>i. all_colors ! (i mod 9)) [0..<length (as_list labels)]"
    using run unfolding ok by auto
  have two: "kw_colors (last (rendered w2')) = kw_colors (last (rendered w'))"
    if run2: "text_highlighter emitted2 w2 text2 selected_label2 annotations2 labels None key2
            show_label_selector2 = (Inr v2, w2')"
  proof -
    obtain s2 l2 ls2 where "selected_label2 = Some s2 \<or> as_list labels = l2 # ls2"
      using text_highlighter_Inr_selected [OF run2] by blast
    from text_highlighter_ok [OF this, of None, simplified] run2 c show ?thesis
      by auto
  qed
  from r w' c two show ?thesis by (simp add: all_colors_def)
qed

theorem builtin_palette_witness:
  "as_list (LabelList [''A'', ''B'', ''C'', ''D'', ''E'', ''F'', ''G'', ''H'', ''I'', ''J''])
     = ''A'' # [''B'', ''C'', ''D'', ''E'', ''F'', ''G'', ''H'', ''I'', ''J''] \<and>
   (9::nat) < 10 \<and>
   text_highlighter None module_loaded ''Hello world!'' None annotations_default
     (LabelList [''A'', ''B'', ''C'', ''D'', ''E'', ''F'', ''G'', ''H'', ''I'', ''J'']) None None True
   = (Inr 0, \<lparr>store = [[]], rendered =
        [\<lparr>kw_text = ''Hello world!'', kw_annotations = 0,
          kw_colors = [''red'', ''green'', ''blue'', ''yellow'', ''orange'', ''purple'',
                       ''pink'', ''cyan'', ''gray'', ''red''],
          kw_labels = [''A'', ''B'', ''C'', ''D'', ''E'', ''F'', ''G'', ''H'', ''I'', ''J''],
          kw_key = None, kw_default = 0, kw_selected_label = ''A'',
          kw_show_label_selector = True\<rparr>]\<rparr>) \<and>
   kw_colors (last (rendered (snd (text_highlighter None module_loaded ''Hello world!'' None
     annotations_default
     (LabelList [''A'', ''B'', ''C'', ''D'', ''E'', ''F'', ''G'', ''H'', ''I'', ''J''])
     None None True)))) ! 9 = ''red''"
proof -
  have run: "text_highlighter None module_loaded ''Hello world!'' None annotations_default
     (LabelList [''A'', ''B'', ''C'', ''D'', ''E'', ''F'', ''G'', ''H'', ''I'', ''J'']) None None True
   = (Inr 0, \<lparr>store = [[]], rendered =
        [\<lparr>kw_text = ''Hello world!'', kw_annotations = 0,
          kw_colors = [''red'', ''green'', ''blue'', ''yellow'', ''orange'', ''purple'',
                       ''pink'', ''cyan'', ''gray'', ''red''],
          kw_labels = [''A'', ''B'', ''C'', ''D'', ''E'', ''F'', ''G'', ''H'', ''I'', ''J''],
          kw_key = None, kw_default = 0, kw_selected_label = ''A'',
          kw_show_label_selector = True\<rparr>]\<rparr>)"
    by (simp add: text_highlighter_def component_func_def all_colors_def Let_def
        module_loaded_def annotations_default_def)
  have sel: "None = Some [] \<or>
     as_list (LabelList [''A'', ''B'', ''C'', ''D'', ''E'', ''F'', ''G'', ''H'', ''I'', ''J''])
     = ''A'' # [''B'', ''C'', ''D'', ''E'', ''F'', ''G'', ''H'', ''I'', ''J'']"
    by simp
  from builtin_palette [OF sel run, of 9] run show ?thesis by simp
qed

text \<open>
  C2, as the code has it. The claim asks for a validation of the annotations before the
  render; the wrapper has none. Whether a call fails is decided by \<^verbatim>\<open>selected_label\<close>,
  \<^verbatim>\<open>labels\<close> and \<^verbatim>\<open>colors\<close> alone: with a selected label that can be resolved and colors
  omitted or as many as the labels, the call succeeds for every text and every annotation
  list, and hands the Rendering Surface the text and the caller's list object, as
  \<^verbatim>\<open>annotations\<close> and as \<^verbatim>\<open>default\<close>, its content untouched.
\<close>

theorem annotations_not_validated:
  assumes sel: "selected_label = Some s \<or> as_list labels = l # ls"
    and col: "colors = None \<or> colors = Some cs \<and> length cs = length (as_list labels)"
    and obj: "annotations < length (store w)"
    and run: "text_highlighter emitted w text selected_label annotations labels colors key
                show_label_selector = (r, w')"
  shows "(\<exists>v. r = Inr v) \<and> rendered w' = rendered w @ [last (rendered w')] \<and>
         kw_text (last (rendered w')) = text \<and>
         kw_annotations (last (rendered w')) = annotations \<and>
         kw_default (last (rendered w')) = annotations \<and>
         store w' ! annotations = store w ! annotations"
  using run obj unfolding text_highlighter_ok [OF sel col]
  by (auto simp add: nth_append split: option.splits)

theorem annotations_not_validated_witness:
  "as_list (LabelList [''PERSON'', ''ORG'']) = ''PERSON'' # [''ORG''] \<and>
   (1::nat) < length (store
     \<lparr>store = [[], [[(''start'', PyInt 0), (''end'', PyInt 2), (''tag'', PyStr ''DATE'')]]],
      rendered = []\<rparr>) \<and>
   \<not> spec_validate [[(''start'', PyInt 0), (''end'', PyInt 2), (''tag'', PyStr ''DATE'')]]
       [''PERSON'', ''ORG''] ''hi'' \<and>
   kw_annotations (last (rendered (snd (text_highlighter None
     \<lparr>store = [[], [[(''start'', PyInt 0), (''end'', PyInt 2), (''tag'', PyStr ''DATE'')]]],
      rendered = []\<rparr>
     ''hi'' None 1 (LabelList [''PERSON'', ''ORG'']) None None True)))) = 1 \<and>
   store (snd (text_highlighter None
     \<lparr>store = [[], [[(''start'', PyInt 0), (''end'', PyInt 2), (''tag'', PyStr ''DATE'')]]],
      rendered = []\<rparr>
     ''hi'' None 1 (LabelList [''PERSON'', ''ORG'']) None None True)) ! 1
     = [[(''start'', PyInt 0), (''end'', PyInt 2), (''tag'', PyStr ''DATE'')]]"
proof -
  have sel: "None = Some [] \<or> as_list (LabelList [''PERSON'', ''ORG'']) = ''PERSON'' # [''ORG'']"
    by simp
  have col: "(None :: string list option) = None \<or>
             None = Some [] \<and> length [] = length (as_list (LabelList [''PERSON'', ''ORG'']))"
    by simp
  have obj: "(1::nat) < length (store
     \<lparr>store = [[], [[(''start'', PyInt 0), (''end'', PyInt 2), (''tag'', PyStr ''DATE'')]]],
      rendered = []\<rparr>)"
    by simp
  have bad: "\<not> spec_validate
       [[(''start'', PyInt 0), (''end'', PyInt 2), (''tag'', PyStr ''DATE'')]]
       [''PERSON'', ''ORG''] ''hi''"
    by (simp add: spec_validate_def spec_tag_ok_def)
  from annotations_not_validated [OF sel col obj surjective_pairing] bad
  show ?thesis by simp
qed

text \<open>
  The claim C2 fails on each of its three checks. The first two inputs are the spec's own
  (section 8): a span ending at 1000 in the two-character text, and the tag DATE outside
  the label set; the third is a \<^verbatim>\<open>text\<close> field that is not \<^verbatim>\<open>source[0:2]\<close>. Each call
  returns normally and the annotation list reaches the Rendering Surface.
\<close>

theorem validation_counterexample:
  "\<not> spec_validate [[(''start'', PyInt 0), (''end'', PyInt 1000), (''tag'', PyStr ''ORG'')]]
       [''ORG''] ''hi'' \<and>
   text_highlighter None
     \<lparr>store = [[], [[(''start'', PyInt 0), (''end'', PyInt 1000), (''tag'', PyStr ''ORG'')]]],
      rendered = []\<rparr>
     ''hi'' None 1 (LabelList [''ORG'']) None None True
   = (Inr 1,
      \<lparr>store = [[], [[(''start'', PyInt 0), (''end'', PyInt 1000), (''tag'', PyStr ''ORG'')]]],
       rendered =
         [\<lparr>kw_text = ''hi'', kw_annotations = 1, kw_colors = [''red''],
           kw_labels = [''ORG''], kw_key = None, kw_default = 1,
           kw_selected_label = ''ORG'', kw_show_label_selector = True\<rparr>]\<rparr>) \<and>
   \<not> spec_validate [[(''start'', PyInt 0), (''end'', PyInt 2), (''tag'', PyStr ''DATE'')]]
       [''PERSON'', ''ORG''] ''hi'' \<and>
   text_highlighter None
     \<lparr>store = [[], [[(''start'', PyInt 0), (''end'', PyInt 2), (''tag'', PyStr ''DATE'')]]],
      rendered = []\<rparr>
     ''hi'' None 1 (LabelList [''PERSON'', ''ORG'']) None None True
   = (Inr 1,
      \<lparr>store = [[], [[(''start'', PyInt 0), (''end'', PyInt 2), (''tag'', PyStr ''DATE'')]]],
       rendered =
         [\<lparr>kw_text = ''hi'', kw_annotations = 1, kw_colors = [''red'', ''green''],
           kw_labels = [''PERSON'', ''ORG''], kw_key = None, kw_default = 1,
           kw_selected_label = ''PERSON'', kw_show_label_selector = True\<rparr>]\<rparr>) \<and>
   \<not> spec_validate [[(''start'', PyInt 0), (''end'', PyInt 2), (''text'', PyStr ''yo''),
                       (''tag'', PyStr ''ORG'')]]
       [''ORG''] ''hi'' \<and>
   text_highlighter None
     \<lparr>store = [[], [[(''start'', PyInt 0), (''end'', PyInt 2), (''text'', PyStr ''yo''),
                    (''tag'', PyStr ''ORG'')]]],
      rendered = []\<rparr>
     ''hi'' None 1 (LabelList [''ORG'']) None None True
   = (Inr 1,
      \<lparr>store = [[], [[(''start'', PyInt 0), (''end'', PyInt 2), (''text'', PyStr ''yo''),
                    (''tag'', PyStr ''ORG'')]]],
       rendered =
         [\<lparr>kw_text = ''hi'', kw_annotations = 1, kw_colors = [''red''],
           kw_labels = [''ORG''], kw_key = None, kw_default = 1,
           kw_selected_label = ''ORG'', kw_show_label_selector = True\<rparr>]\<rparr>)"
  by (simp add: text_highlighter_def component_func_def Let_def all_colors_def
      spec_validate_def spec_tag_ok_def spec_span_ok_def spec_text_ok_def)

text \<open>
  C3. In a fresh session, before any interaction (the frontend has reported nothing), a
  call with an accepted configuration returns its \<^verbatim>\<open>annotations\<close> argument: the very
  object, passed as \<^verbatim>\<open>default\<close>, and no list in the store has changed, so the value is
  the input, unmodified. This holds for every annotation list, valid by the spec or not.
\<close>

theorem fresh_session_returns_input:
  assumes sel: "selected_label = Some s \<or> as_list labels = l # ls"
    and col: "colors = None \<or> colors = Some cs \<and> length cs = length (as_list labels)"
    and run: "text_highlighter None w text selected_label annotations labels colors key
                show_label_selector = (r, w')"
  shows "r = Inr annotations \<and> store w' = store w \<and>
         kw_default (last (rendered w')) = annotations"
  using run unfolding text_highlighter_ok [OF sel col] by auto

theorem fresh_session_returns_input_witness:
  "as_list (LabelList [''PERSON'', ''ORG'']) = ''PERSON'' # [''ORG''] \<and>
   text_highlighter None
     \<lparr>store = [[], [[(''start'', PyInt 0), (''end'', PyInt 5), (''text'', PyStr ''Hello''),
                    (''tag'', PyStr ''ORG''), (''color'', PyStr ''green'')]]],
      rendered = []\<rparr>
     ''Hello world!'' None 1 (LabelList [''PERSON'', ''ORG'']) None None True
   = (Inr 1,
      \<lparr>store = [[], [[(''start'', PyInt 0), (''end'', PyInt 5), (''text'', PyStr ''Hello''),
                    (''tag'', PyStr ''ORG''), (''color'', PyStr ''green'')]]],
       rendered =
         [\<lparr>kw_text = ''Hello world!'', kw_annotations = 1, kw_colors = [''red'', ''green''],
           kw_labels = [''PERSON'', ''ORG''], kw_key = None, kw_default = 1,
           kw_selected_label = ''PERSON'', kw_show_label_selector = True\<rparr>]\<rparr>)"
proof -
  have sel: "None = Some [] \<or> as_list (LabelList [''PERSON'', ''ORG'']) = ''PERSON'' # [''ORG'']"
    by simp
  have col: "(None :: string list option) = None \<or>
             None = Some [] \<and> length [] = length (as_list (LabelList [''PERSON'', ''ORG'']))"
    by simp
  obtain r w' where run: "text_highlighter None
     \<lparr>store = [[], [[(''start'', PyInt 0), (''end'', PyInt 5), (''text'', PyStr ''Hello''),
                    (''tag'', PyStr ''ORG''), (''color'', PyStr ''green'')]]],
      rendered = []\<rparr>
     ''Hello world!'' None 1 (LabelList [''PERSON'', ''ORG'']) None None True = (r, w')"
    by fastforce
  have kw: "rendered w' = [\<lparr>kw_text = ''Hello world!'', kw_annotations = 1,
           kw_colors = [''red'', ''green''],
           kw_labels = [''PERSON'', ''ORG''], kw_key = None, kw_default = 1,
           kw_selected_label = ''PERSON'', kw_show_label_selector = True\<rparr>]"
    using run
    by (auto simp add: text_highlighter_def component_func_def all_colors_def Let_def)
  from fresh_session_returns_input [OF sel col run] kw run show ?thesis
    by (cases w') simp
qed

text \<open>
  C4. With explicit \<^verbatim>\<open>colors\<close>: when their number differs from that of the labels the
  call fails and nothing is rendered; the failure is the assertion of line 80 (Python's
  AssertionError, which the spec files under ConfigurationError) whenever a selected
  label could be resolved, and otherwise the IndexError of line 78, which comes first.
  When the numbers agree and a selected label can be resolved, the call succeeds and
  sends the explicit colors and the labels as they are, so that position \<open>i\<close> of the
  one goes with position \<open>i\<close> of the other.
\<close>

theorem explicit_colors:
  assumes run: "text_highlighter emitted w text selected_label annotations labels (Some cs)
                  key show_label_selector = (r, w')"
  shows "(length cs \<noteq> length (as_list labels) \<longrightarrow>
            (\<exists>e. r = Inl e) \<and> w' = w \<and>
            (selected_label = Some s \<or> as_list labels = l # ls \<longrightarrow>
               r = Inl (AssertionError ''Colors and labels must be the same length''))) \<and>
         (length cs = length (as_list labels) \<longrightarrow>
            (selected_label = Some s \<or> as_list labels = l # ls) \<longrightarrow>
            (\<exists>v. r = Inr v) \<and> kw_colors (last (rendered w')) = cs \<and>
            kw_labels (last (rendered w')) = as_list labels \<and>
            (i < length (as_list labels) \<longrightarrow>
               kw_colors (last (rendered w')) ! i = cs ! i \<and>
               kw_labels (last (rendered w')) ! i = as_list labels ! i))"
proof (intro conjI impI)
  assume ne: "length cs \<noteq> length (as_list labels)"
  show "\<exists>e. r = Inl e" "w' = w"
    using run ne
    by (cases selected_label; cases "as_list labels";
        auto simp add: text_highlighter_def Let_def)+
  assume "selected_label = Some s \<or> as_list labels = l # ls"
  from text_highlighter_assertion_error [OF this ne] run
  show "r = Inl (AssertionError ''Colors and labels must be the same length'')"
    by simp
next
  assume eq: "length cs = length (as_list labels)"
    and sel: "selected_label = Some s \<or> as_list labels = l # ls"
  have col: "Some cs = None \<or> Some cs = Some cs \<and> length cs = length (as_list labels)"
    using eq by simp
  have *: "(\<exists>v. r = Inr v) \<and> kw_colors (last (rendered w')) = cs \<and>
        kw_labels (last (rendered w')) = as_list labels"
    using run unfolding text_highlighter_ok [OF sel col] by auto
  from * show "\<exists>v. r = Inr v" "kw_colors (last (rendered w')) = cs"
    "kw_labels (last (rendered w')) = as_list labels"
    by simp_all
  from * show "kw_colors (last (rendered w')) ! i = cs ! i"
    "kw_labels (last (rendered w')) ! i = as_list labels ! i"
    by simp_all
qed

theorem explicit_colors_witness:
  "text_highlighter None module_loaded ''Hello world!'' None annotations_default
     (LabelList [''A'', ''B'']) (Some [''red'']) None True
     = (Inl (AssertionError ''Colors and labels must be the same length''), module_loaded) \<and>
   length [''red''] \<noteq> length (as_list (LabelList [''A'', ''B''])) \<and>
   as_list (LabelList [''A'', ''B'']) = ''A'' # [''B''] \<and>
   length [''teal'', ''navy''] = length (as_list (LabelList [''A'', ''B''])) \<and>
   (1::nat) < length (as_list (LabelList [''A'', ''B''])) \<and>
   text_highlighter None module_loaded ''Hello world!'' None annotations_default
     (LabelList [''A'', ''B'']) (Some [''teal'', ''navy'']) None True
     = (Inr 0, \<lparr>store = [[]], rendered =
          [\<lparr>kw_text = ''Hello world!'', kw_annotations = 0, kw_colors = [''teal'', ''navy''],
            kw_labels = [''A'', ''B''], kw_key = None, kw_default = 0,
            kw_selected_label = ''A'', kw_show_label_selector = True\<rparr>]\<rparr>) \<and>
   kw_colors (last (rendered (snd (text_highlighter None module_loaded ''Hello world!'' None
     annotations_default (LabelList [''A'', ''B'']) (Some [''teal'', ''navy'']) None True))))
     ! 1 = ''navy''"
proof -
  obtain r1 w1 where run1: "text_highlighter None module_loaded ''Hello world!'' None
     annotations_default (LabelList [''A'', ''B'']) (Some [''red'']) None True = (r1, w1)"
    by fastforce
  have run2: "text_highlighter None module_loaded ''Hello world!'' None annotations_default
     (LabelList [''A'', ''B'']) (Some [''teal'', ''navy'']) None True
     = (Inr 0, \<lparr>store = [[]], rendered =
          [\<lparr>kw_text = ''Hello world!'', kw_annotations = 0, kw_colors = [''teal'', ''navy''],
            kw_labels = [''A'', ''B''], kw_key = None, kw_default = 0,
            kw_selected_label = ''A'', kw_show_label_selector = True\<rparr>]\<rparr>)"
    by (simp add: text_highlighter_def component_func_def Let_def module_loaded_def
        annotations_default_def)
  from explicit_colors [OF run1, of "[]" "''A''" "[''B'']"]
       explicit_colors [OF run2, of "[]" "''A''" "[''B'']" 1] run1 run2
  show ?thesis by simp
qed

text \<open>
  C5. When the labels are non-empty and no \<^verbatim>\<open>selected_label\<close> is supplied, a call whose
  colors are accepted reaches the Rendering Surface once, and the selected label it sends
  is the first label.
\<close>

theorem default_selected_label:
  assumes first: "as_list labels = l # ls"
    and col: "colors = None \<or> colors = Some cs \<and> length cs = length (as_list labels)"
    and run: "text_highlighter emitted w text None annotations labels colors key
                show_label_selector = (r, w')"
  shows "(\<exists>v. r = Inr v) \<and> rendered w' = rendered w @ [last (rendered w')] \<and>
         kw_selected_label (last (rendered w')) = l \<and>
         kw_labels (last (rendered w')) = l # ls"
proof -
  have sel: "None = Some [] \<or> as_list labels = l # ls" using first by simp
  show ?thesis
    using run first unfolding text_highlighter_ok [OF sel col] by auto
qed

theorem default_selected_label_witness:
  "as_list (LabelList [''PERSON'', ''ORG'']) = ''PERSON'' # [''ORG''] \<and>
   text_highlighter None module_loaded ''Hello world!'' None annotations_default
     (LabelList [''PERSON'', ''ORG'']) None None True
     = (Inr 0, \<lparr>store = [[]], rendered =
          [\<lparr>kw_text = ''Hello world!'', kw_annotations = 0, kw_colors = [''red'', ''green''],
            kw_labels = [''PERSON'', ''ORG''], kw_key = None, kw_default = 0,
            kw_selected_label = ''PERSON'', kw_show_label_selector = True\<rparr>]\<rparr>) \<and>
   kw_selected_label (last (rendered (snd (text_highlighter None module_loaded
     ''Hello world!'' None annotations_default (LabelList [''PERSON'', ''ORG'']) None None
     True)))) = ''PERSON''"
proof -
  have first: "as_list (LabelList [''PERSON'', ''ORG'']) = ''PERSON'' # [''ORG'']" by simp
  have col: "(None :: string list option) = None \<or>
             None = Some [] \<and> length [] = length (as_list (LabelList [''PERSON'', ''ORG'']))"
    by simp
  have run: "text_highlighter None module_loaded ''Hello world!'' None annotations_default
     (LabelList [''PERSON'', ''ORG'']) None None True
     = (Inr 0, \<lparr>store = [[]], rendered =
          [\<lparr>kw_text = ''Hello world!'', kw_annotations = 0, kw_colors = [''red'', ''green''],
            kw_labels = [''PERSON'', ''ORG''], kw_key = None, kw_default = 0,
            kw_selected_label = ''PERSON'', kw_show_label_selector = True\<rparr>]\<rparr>)"
    by (simp add: text_highlighter_def component_func_def Let_def module_loaded_def
        annotations_default_def all_colors_def)
  from default_selected_label [OF first col run] run show ?thesis by simp
qed

text \<open>
  C6. When the label set is empty and no \<^verbatim>\<open>selected_label\<close> is supplied, the call fails
  before any render occurs: \<^verbatim>\<open>labels[0]\<close> raises (Python's IndexError, the failure the
  spec files under ConfigurationError), whatever the other arguments are, and the world,
  with its list of renders, is as it was.
\<close>

theorem empty_labels_fail:
  "text_highlighter emitted w text None annotations (LabelList []) colors key
     show_label_selector = (Inl IndexError, w)"
  by (simp add: text_highlighter_def)

text \<open>
  C7, as the code has it. The claim asks that a colour at odds with the palette be
  reported; the wrapper never compares an annotation's colour with the palette. Every
  annotation of the caller's list, whatever its colour, is in the list the Rendering
  Surface is given, for every accepted configuration; and before any interaction the call
  returns the caller's list object with the store unchanged, the colour neither rejected
  nor recomputed.
\<close>

theorem stale_color_accepted:
  assumes sel: "selected_label = Some s \<or> as_list labels = l # ls"
    and col: "colors = None \<or> colors = Some cs \<and> length cs = length (as_list labels)"
    and obj: "annotations < length (store w)"
    and mem: "a \<in> set (store w ! annotations)"
    and run: "text_highlighter emitted w text selected_label annotations labels colors key
                show_label_selector = (r, w')"
  shows "(\<exists>v. r = Inr v) \<and>
         a \<in> set (store w' ! kw_annotations (last (rendered w'))) \<and>
         (emitted = None \<longrightarrow> r = Inr annotations \<and> store w' = store w)"
  using run obj mem unfolding text_highlighter_ok [OF sel col]
  by (auto simp add: nth_append split: option.splits)

theorem stale_color_accepted_witness:
  "as_list (LabelList [''PERSON'', ''ORG'']) = ''PERSON'' # [''ORG''] \<and>
   (1::nat) < length (store
     \<lparr>store = [[], [[(''tag'', PyStr ''ORG''), (''color'', PyStr ''red'')]]],
      rendered = []\<rparr>) \<and>
   [(''tag'', PyStr ''ORG''), (''color'', PyStr ''red'')] \<in> set (store
     \<lparr>store = [[], [[(''tag'', PyStr ''ORG''), (''color'', PyStr ''red'')]]],
      rendered = []\<rparr> ! 1) \<and>
   \<not> spec_color_ok [''PERSON'', ''ORG''] [''red'', ''green'']
       [(''tag'', PyStr ''ORG''), (''color'', PyStr ''red'')] \<and>
   fst (text_highlighter None
     \<lparr>store = [[], [[(''tag'', PyStr ''ORG''), (''color'', PyStr ''red'')]]],
      rendered = []\<rparr>
     ''Hello world!'' None 1 (LabelList [''PERSON'', ''ORG'']) None None True) = Inr 1 \<and>
   store (snd (text_highlighter None
     \<lparr>store = [[], [[(''tag'', PyStr ''ORG''), (''color'', PyStr ''red'')]]],
      rendered = []\<rparr>
     ''Hello world!'' None 1 (LabelList [''PERSON'', ''ORG'']) None None True))
     = [[], [[(''tag'', PyStr ''ORG''), (''color'', PyStr ''red'')]]]"
proof -
  have sel: "None = Some [] \<or> as_list (LabelList [''PERSON'', ''ORG'']) = ''PERSON'' # [''ORG'']"
    by simp
  have col: "(None :: string list option) = None \<or>
             None = Some [] \<and> length [] = length (as_list (LabelList [''PERSON'', ''ORG'']))"
    by simp
  have obj: "(1::nat) < length (store
     \<lparr>store = [[], [[(''tag'', PyStr ''ORG''), (''color'', PyStr ''red'')]]],
      rendered = []\<rparr>)"
    by simp
  have mem: "[(''tag'', PyStr ''ORG''), (''color'', PyStr ''red'')] \<in> set (store
     \<lparr>store = [[], [[(''tag'', PyStr ''ORG''), (''color'', PyStr ''red'')]]],
      rendered = []\<rparr> ! 1)"
    by simp
  have bad: "\<not> spec_color_ok [''PERSON'', ''ORG''] [''red'', ''green'']
       [(''tag'', PyStr ''ORG''), (''color'', PyStr ''red'')]"
    by (simp add: spec_color_ok_def)
  from stale_color_accepted [OF sel col obj mem surjective_pairing] bad
  show ?thesis by simp
qed

text \<open>
  The claim C7 fails on the spec's own end-to-end example (section 8), which is also the
  annotation of the demo at the end of the source: colour red on tag ORG, where the
  resolved palette gives ORG green. The call returns normally, with that annotation.
\<close>

theorem color_counterexample:
  "\<not> spec_color_ok [''PERSON'', ''ORG''] [''red'', ''green'']
       [(''start'', PyInt 0), (''end'', PyInt 5), (''text'', PyStr ''Hello''),
        (''tag'', PyStr ''ORG''), (''color'', PyStr ''red'')] \<and>
   text_highlighter None
     \<lparr>store = [[], [[(''start'', PyInt 0), (''end'', PyInt 5), (''text'', PyStr ''Hello''),
                    (''tag'', PyStr ''ORG''), (''color'', PyStr ''red'')]]],
      rendered = []\<rparr>
     ''Hello world!'' None 1 (LabelList [''PERSON'', ''ORG'']) None None True
   = (Inr 1,
      \<lparr>store = [[], [[(''start'', PyInt 0), (''end'', PyInt 5), (''text'', PyStr ''Hello''),
                    (''tag'', PyStr ''ORG''), (''color'', PyStr ''red'')]]],
       rendered =
         [\<lparr>kw_text = ''Hello world!'', kw_annotations = 1, kw_colors = [''red'', ''green''],
           kw_labels = [''PERSON'', ''ORG''], kw_key = None, kw_default = 1,
           kw_selected_label = ''PERSON'', kw_show_label_selector = True\<rparr>]\<rparr>)"
  by (simp add: text_highlighter_def component_func_def Let_def all_colors_def
      spec_color_ok_def)

text \<open>
  C8. When the frontend has emitted a value \<open>v\<close>, a call with an accepted configuration
  returns a list object whose content is \<open>v\<close> itself, element for element and in its
  order: the wrapper returns what \<^verbatim>\<open>_component_func\<close> returned and does nothing to it.
  The object is new; the lists that existed are as they were.
\<close>

theorem emitted_value_returned:
  assumes sel: "selected_label = Some s \<or> as_list labels = l # ls"
    and col: "colors = None \<or> colors = Some cs \<and> length cs = length (as_list labels)"
    and run: "text_highlighter (Some v) w text selected_label annotations labels colors key
                show_label_selector = (r, w')"
  shows "r = Inr (length (store w)) \<and> store w' = store w @ [v] \<and>
         store w' ! length (store w) = v"
  using run unfolding text_highlighter_ok [OF sel col] by auto

theorem emitted_value_returned_witness:
  "as_list (LabelList [''PERSON'', ''ORG'']) = ''PERSON'' # [''ORG''] \<and>
   fst (text_highlighter
     (Some [[(''start'', PyInt 6), (''end'', PyInt 11), (''tag'', PyStr ''PERSON'')],
            [(''start'', PyInt 0), (''end'', PyInt 5), (''tag'', PyStr ''ORG'')],
            [(''start'', PyInt 0), (''end'', PyInt 5), (''tag'', PyStr ''ORG'')]])
     module_loaded ''Hello world!'' None annotations_default
     (LabelList [''PERSON'', ''ORG'']) None None True) = Inr 1 \<and>
   store (snd (text_highlighter
     (Some [[(''start'', PyInt 6), (''end'', PyInt 11), (''tag'', PyStr ''PERSON'')],
            [(''start'', PyInt 0), (''end'', PyInt 5), (''tag'', PyStr ''ORG'')],
            [(''start'', PyInt 0), (''end'', PyInt 5), (''tag'', PyStr ''ORG'')]])
     module_loaded ''Hello world!'' None annotations_default
     (LabelList [''PERSON'', ''ORG'']) None None True)) ! 1 =
     [[(''start'', PyInt 6), (''end'', PyInt 11), (''tag'', PyStr ''PERSON'')],
      [(''start'', PyInt 0), (''end'', PyInt 5), (''tag'', PyStr ''ORG'')],
      [(''start'', PyInt 0), (''end'', PyInt 5), (''tag'', PyStr ''ORG'')]]"
proof -
  have sel: "None = Some [] \<or> as_list (LabelList [''PERSON'', ''ORG'']) = ''PERSON'' # [''ORG'']"
    by simp
  have col: "(None :: string list option) = None \<or>
             None = Some [] \<and> length [] = length (as_list (LabelList [''PERSON'', ''ORG'']))"
    by simp
  from emitted_value_returned [OF sel col surjective_pairing]
  show ?thesis by (simp add: module_loaded_def)
qed

text \<open>
  C9. With \<^verbatim>\<open>labels\<close> a single string \<open>s\<close>, and neither \<^verbatim>\<open>selected_label\<close> nor
  \<^verbatim>\<open>colors\<close> supplied, the call succeeds and sends the label list \<open>[s]\<close>, the selected
  label \<open>s\<close> and the one colour red.
\<close>

theorem single_string_label:
  "\<exists>v w'. text_highlighter emitted w text None annotations (LabelStr s) None key
             show_label_selector = (Inr v, w') \<and>
           rendered w' = rendered w @
             [\<lparr>kw_text = text, kw_annotations = annotations, kw_colors = [''red''],
               kw_labels = [s], kw_key = key, kw_default = annotations,
               kw_selected_label = s, kw_show_label_selector = show_label_selector\<rparr>]"
proof -
  have sel: "None = Some [] \<or> as_list (LabelStr s) = s # []" by simp
  have col: "(None :: string list option) = None \<or>
             None = Some [] \<and> length [] = length (as_list (LabelStr s))" by simp
  show ?thesis
    unfolding text_highlighter_ok [OF sel col] by (simp add: all_colors_def)
qed



end
